theory Spec2Isabelle
  imports Main
begin

section \<open>Python strings\<close>

text \<open>
  A Python \<open>str\<close> is a sequence of Unicode code points. The denylist and the messages of
  the program are Ukrainian, so a string is modelled as the list of its code points and
  \<open>len\<close> is \<open>length\<close>. An ASCII literal is written through \<open>ascii\<close>; Cyrillic
  literals are written out as code points.
\<close>

type_synonym pystr = "nat list"

definition ascii :: "string \<Rightarrow> pystr" where
  "ascii s = map of_char s"

text \<open>Truthiness of an optional string: \<open>None\<close> and \<open>""\<close> are false.\<close>

fun truthy :: "pystr option \<Rightarrow> bool" where
  "truthy None = False"
| "truthy (Some s) = (s \<noteq> [])"

text \<open>
  \<open>str.isspace\<close>: the code points that \<open>str.strip()\<close> removes from both ends.
\<close>

definition is_space :: "nat \<Rightarrow> bool" where
  "is_space c \<longleftrightarrow>
     (0x9 \<le> c \<and> c \<le> 0xD) \<or> (0x1C \<le> c \<and> c \<le> 0x20) \<or> c = 0x85 \<or> c = 0xA0 \<or>
     c = 0x1680 \<or> (0x2000 \<le> c \<and> c \<le> 0x200A) \<or> c = 0x2028 \<or> c = 0x2029 \<or>
     c = 0x202F \<or> c = 0x205F \<or> c = 0x3000"

definition strip :: "pystr \<Rightarrow> pystr" where
  "strip s = rev (dropWhile is_space (rev (dropWhile is_space s)))"

text \<open>
  \<open>str.lower\<close> on Basic Latin (U+0000 to U+007F) and on the Cyrillic block (U+0400 to
  U+04FF), the alphabets of the transcripts and of the denylist, where it maps code point
  by code point. This is a restriction: Python also lower-cases letters of other blocks
  (Latin-1, Greek and so on, one of them to two code points), which are left as they are
  here. Every text evaluated below lies in the two blocks, and the properties stated for
  all transcripts use of \<open>lower\<close> only that it maps the empty text to the empty text
  and never yields the capital letter U+041F, which holds of \<open>str.lower\<close> as well.
\<close>

definition lower_char :: "nat \<Rightarrow> nat" where
  "lower_char c =
     (if 0x41 \<le> c \<and> c \<le> 0x5A then c + 32
      else if 0x400 \<le> c \<and> c \<le> 0x40F then c + 80
      else if 0x410 \<le> c \<and> c \<le> 0x42F then c + 32
      else if 0x460 \<le> c \<and> c \<le> 0x481 \<and> even c then c + 1
      else if 0x48A \<le> c \<and> c \<le> 0x4BF \<and> even c then c + 1
      else if c = 0x4C0 then 0x4CF
      else if 0x4C1 \<le> c \<and> c \<le> 0x4CE \<and> odd c then c + 1
      else if 0x4D0 \<le> c \<and> c \<le> 0x4FF \<and> even c then c + 1
      else c)"

definition lower :: "pystr \<Rightarrow> pystr" where
  "lower s = map lower_char s"

text \<open>\<open>phrase in text\<close>: \<open>phrase\<close> occurs in \<open>text\<close> as a contiguous run.\<close>

fun is_prefix :: "pystr \<Rightarrow> pystr \<Rightarrow> bool" where
  "is_prefix [] ys = True"
| "is_prefix (x # xs) [] = False"
| "is_prefix (x # xs) (y # ys) = (x = y \<and> is_prefix xs ys)"

fun contains :: "pystr \<Rightarrow> pystr \<Rightarrow> bool" where
  "contains [] phrase = (phrase = [])"
| "contains (c # cs) phrase = (is_prefix phrase (c # cs) \<or> contains cs phrase)"

section \<open>The classifier\<close>

text \<open>
  \<open>self.invalid_phrases\<close> is assigned once in the constructor and never changed: the
  eleven phrases, in the order of the source.
\<close>

definition invalid_phrases :: "pystr list" where
  "invalid_phrases =
    [[0x43D, 0x435, 0x434, 0x43E, 0x441, 0x442, 0x443, 0x43F, 0x43D, 0x438, 0x439],
     [0x43D, 0x43E, 0x43C, 0x435, 0x440, 0x20, 0x43D, 0x435, 0x20, 0x43E, 0x431, 0x441, 0x43B,
      0x443, 0x433, 0x43E, 0x432, 0x443, 0x454, 0x442, 0x44C, 0x441, 0x44F],
     [0x43D, 0x435, 0x432, 0x456, 0x440, 0x43D, 0x43E, 0x20, 0x43D, 0x430, 0x431, 0x440, 0x430,
      0x43D, 0x438, 0x439],
     [0x43F, 0x43E, 0x437, 0x430, 0x20, 0x437, 0x43E, 0x43D, 0x43E, 0x44E],
     [0x430, 0x431, 0x43E, 0x43D, 0x435, 0x43D, 0x442, 0x20, 0x432, 0x456, 0x434, 0x441, 0x443,
      0x442, 0x43D, 0x456, 0x439],
     [0x43D, 0x43E, 0x43C, 0x435, 0x440, 0x20, 0x432, 0x456, 0x434, 0x43A, 0x43B, 0x44E, 0x447,
      0x435, 0x43D, 0x438, 0x439],
     [0x43D, 0x435, 0x43F, 0x440, 0x430, 0x432, 0x438, 0x43B, 0x44C, 0x43D, 0x438, 0x439, 0x20,
      0x43D, 0x43E, 0x43C, 0x435, 0x440],
     [0x43D, 0x435, 0x20, 0x456, 0x441, 0x43D, 0x443, 0x454],
     [0x442, 0x438, 0x43C, 0x447, 0x430, 0x441, 0x43E, 0x432, 0x43E, 0x20, 0x43D, 0x435, 0x434,
      0x43E, 0x441, 0x442, 0x443, 0x43F, 0x43D, 0x438, 0x439],
     [0x43D, 0x43E, 0x43C, 0x435, 0x440, 0x20, 0x437, 0x430, 0x431, 0x43B, 0x43E, 0x43A, 0x43E,
      0x432, 0x430, 0x43D, 0x438, 0x439],
     [0x43F, 0x43E, 0x441, 0x43B, 0x443, 0x433, 0x430, 0x20, 0x43D, 0x435, 0x434, 0x43E, 0x441,
      0x442, 0x443, 0x43F, 0x43D, 0x430]]"

text \<open>
  \<open>is_valid_number\<close>: false on the empty text; false as soon as a denylist phrase occurs
  in the lower-cased text; false when the stripped text (the text as given, not the
  lower-cased one) has fewer than three code points; true otherwise.
\<close>

fun any_phrase_in :: "pystr list \<Rightarrow> pystr \<Rightarrow> bool" where
  "any_phrase_in [] text_lower = False"
| "any_phrase_in (phrase # phrases) text_lower =
     (if contains text_lower phrase then True else any_phrase_in phrases text_lower)"

definition is_valid_number :: "pystr \<Rightarrow> bool" where
  "is_valid_number transcribed_text =
     (if transcribed_text = [] then False
      else if any_phrase_in invalid_phrases (lower transcribed_text) then False
      else if length (strip transcribed_text) < 3 then False
      else True)"

section \<open>Exceptions, the log and results of calls\<close>

text \<open>
  The exceptions the program raises itself or tells apart in a handler, and
  \<open>OtherException\<close> for every other subclass of \<open>Exception\<close> that a library call
  may raise.
\<close>

datatype exn =
    ValueError pystr
  | TwilioRestException
  | FileNotFoundError
  | AttributeError
  | OtherException nat

datatype status = VALID | INVALID | ERROR

text \<open>
  One constructor per \<open>logger\<close> call of the source, carrying the values its message
  interpolates; the level is \<open>logger.info\<close> or \<open>logger.error\<close>.
\<close>

datatype log_level = LogInfo | LogError

datatype message =
    Loaded nat pystr
  | FileNotFound pystr
  | ReadFailed exn
  | CallStarted pystr pystr
  | TwilioFailed pystr exn
  | GeneralFailed pystr exn
  | RecordingSaved pystr
  | DownloadRejected pystr
  | DownloadFailed exn
  | Recognised pystr
  | RecognitionFailed exn
  | Checking pystr
  | ResultFor pystr status
  | NoNumbers
  | Processing nat nat pystr
  | Pause nat
  | Finished
  | ValidCount nat
  | InvalidCount nat
  | ErrorCount nat
  | SavedTo pystr

type_synonym log = "(log_level \<times> message) list"

text \<open>
  What running a piece of Python yields: the lines it logged, and either the exception
  that left it (\<open>Inl\<close>) or its value (\<open>Inr\<close>). Lines logged before an exception stay
  logged.
\<close>

type_synonym 'a py = "log \<times> (exn + 'a)"

definition py_return :: "'a \<Rightarrow> 'a py" where
  "py_return x = ([], Inr x)"

definition py_raise :: "exn \<Rightarrow> 'a py" where
  "py_raise e = ([], Inl e)"

definition extern :: "exn + 'a \<Rightarrow> 'a py" where
  "extern r = ([], r)"

definition log_info :: "message \<Rightarrow> unit py" where
  "log_info m = ([(LogInfo, m)], Inr ())"

definition log_error :: "message \<Rightarrow> unit py" where
  "log_error m = ([(LogError, m)], Inr ())"

text \<open>Sequencing: the second part runs only when the first returned.\<close>

definition py_bind :: "'a py \<Rightarrow> ('a \<Rightarrow> 'b py) \<Rightarrow> 'b py" where
  "py_bind m f =
     (case m of
        (l, Inl e) \<Rightarrow> (l, Inl e)
      | (l, Inr x) \<Rightarrow> (case f x of (l', r) \<Rightarrow> (l @ l', r)))"

text \<open>\<open>try: m except Exception as e: h e\<close>.\<close>

definition try_except :: "'a py \<Rightarrow> (exn \<Rightarrow> 'a py) \<Rightarrow> 'a py" where
  "try_except m h =
     (case m of
        (l, Inl e) \<Rightarrow> (case h e of (l', r) \<Rightarrow> (l @ l', r))
      | (l, Inr x) \<Rightarrow> (l, Inr x))"

section \<open>Construction and credentials\<close>

text \<open>
  \<open>os.getenv\<close> is a function from variable names to optional values. A variable counts as
  missing when \<open>not os.getenv(var)\<close>: unset, or set to the empty string.
\<close>

type_synonym environ = "pystr \<Rightarrow> pystr option"

definition TWILIO_ACCOUNT_SID :: pystr where
  "TWILIO_ACCOUNT_SID = ascii ''TWILIO_ACCOUNT_SID''"

definition TWILIO_AUTH_TOKEN :: pystr where
  "TWILIO_AUTH_TOKEN = ascii ''TWILIO_AUTH_TOKEN''"

definition TWILIO_PHONE_NUMBER :: pystr where
  "TWILIO_PHONE_NUMBER = ascii ''TWILIO_PHONE_NUMBER''"

definition OPENAI_API_KEY :: pystr where
  "OPENAI_API_KEY = ascii ''OPENAI_API_KEY''"

definition required_vars :: "pystr list" where
  "required_vars = [TWILIO_ACCOUNT_SID, TWILIO_AUTH_TOKEN, TWILIO_PHONE_NUMBER, OPENAI_API_KEY]"

text \<open>\<open>sep.join(xs)\<close>.\<close>

fun join :: "pystr \<Rightarrow> pystr list \<Rightarrow> pystr" where
  "join sep [] = []"
| "join sep [x] = x"
| "join sep (x # y # ys) = x @ sep @ join sep (y # ys)"

text \<open>The prefix of the \<open>ValueError\<close> message, up to and including \<open>": "\<close>.\<close>

definition missing_prefix :: pystr where
  "missing_prefix =
     [0x412, 0x456, 0x434, 0x441, 0x443, 0x442, 0x43D, 0x456, 0x20, 0x437, 0x43C, 0x456, 0x43D,
      0x43D, 0x456, 0x20, 0x441, 0x435, 0x440, 0x435, 0x434, 0x43E, 0x432, 0x438, 0x449, 0x430,
      0x3A, 0x20]"

definition missing_vars :: "environ \<Rightarrow> pystr list" where
  "missing_vars getenv = filter (\<lambda>var. \<not> truthy (getenv var)) required_vars"

definition validate_credentials :: "environ \<Rightarrow> unit py" where
  "validate_credentials getenv =
     (if missing_vars getenv \<noteq> []
      then py_raise (ValueError (missing_prefix @ join (ascii '', '') (missing_vars getenv)))
      else py_return ())"

text \<open>
  The attributes the constructor reads from the environment, and the telephony client.
  \<open>invalid_phrases\<close>, \<open>call_delay\<close> and \<open>recording_duration\<close> are the same for every
  instance and are constants here.
\<close>

record 'c phone_validator =
  twilio_account_sid :: "pystr option"
  twilio_auth_token :: "pystr option"
  twilio_phone_number :: "pystr option"
  openai_api_key :: "pystr option"
  twilio_client :: 'c

definition call_delay :: nat where
  "call_delay = 2"

definition recording_duration :: nat where
  "recording_duration = 10"

text \<open>
  \<open>__init__\<close>, in the order of the source: the four reads, the construction of the
  telephony client from the first two values, and last \<open>_validate_credentials\<close>. The
  client's constructor \<open>Client\<close> belongs to the telephony library and is a parameter: it
  returns a client or raises.
\<close>

definition init :: "(pystr option \<Rightarrow> pystr option \<Rightarrow> exn + 'c) \<Rightarrow> environ \<Rightarrow> 'c phone_validator py" where
  "init Client getenv =
     py_bind (extern (Client (getenv TWILIO_ACCOUNT_SID) (getenv TWILIO_AUTH_TOKEN))) (\<lambda>client.
     py_bind (validate_credentials getenv) (\<lambda>_.
     py_return \<lparr>twilio_account_sid = getenv TWILIO_ACCOUNT_SID,
                twilio_auth_token = getenv TWILIO_AUTH_TOKEN,
                twilio_phone_number = getenv TWILIO_PHONE_NUMBER,
                openai_api_key = getenv OPENAI_API_KEY,
                twilio_client = client\<rparr>))"

section \<open>Reading the numbers\<close>

text \<open>
  \<open>csv.DictReader\<close> over the records that \<open>csv.reader\<close> yields. The first record is the
  header. A record that is empty is skipped. A record is zipped with the header (for a
  repeated column name the last value stays); when the record is shorter than the header,
  each remaining column is set to \<open>restval\<close>, which is \<open>None\<close>. So a row maps a column
  name to nothing (the key is absent), to \<open>Some None\<close> (present, \<open>None\<close>) or to
  \<open>Some (Some v)\<close>.
\<close>

type_synonym row = "pystr \<Rightarrow> pystr option option"

definition dict_row :: "pystr list \<Rightarrow> pystr list \<Rightarrow> row" where
  "dict_row fieldnames record =
     (\<lambda>key. if key \<in> set (drop (length record) fieldnames) then Some None
            else map_option Some (map_of (rev (zip fieldnames record)) key))"

fun DictReader :: "pystr list list \<Rightarrow> row list" where
  "DictReader [] = []"
| "DictReader (fieldnames # records) =
     map (dict_row fieldnames) (filter (\<lambda>record. record \<noteq> []) records)"

text \<open>
  The loop of \<open>read_phone_numbers\<close>. \<open>'phone' in row\<close> holds when the key is present;
  \<open>row['phone'].strip()\<close> raises \<open>AttributeError\<close> when the value is \<open>None\<close>.
\<close>

fun collect_phones :: "row list \<Rightarrow> pystr list \<Rightarrow> pystr list py" where
  "collect_phones [] phones = py_return phones"
| "collect_phones (row # rows) phones =
     (case row (ascii ''phone'') of
        None \<Rightarrow> collect_phones rows phones
      | Some None \<Rightarrow> py_raise AttributeError
      | Some (Some v) \<Rightarrow>
          if strip v \<noteq> [] then collect_phones rows (phones @ [strip v])
          else collect_phones rows phones)"

text \<open>
  \<open>read_phone_numbers\<close>. \<open>read_csv\<close> stands for opening the file and reading its
  records: the records, or the exception raised on the way.
\<close>

definition read_phone_numbers :: "(pystr \<Rightarrow> exn + pystr list list) \<Rightarrow> pystr \<Rightarrow> pystr list py" where
  "read_phone_numbers read_csv csv_file =
     try_except
       (py_bind (extern (read_csv csv_file)) (\<lambda>records.
        py_bind (collect_phones (DictReader records) []) (\<lambda>phones.
        py_bind (log_info (Loaded (length phones) csv_file)) (\<lambda>_.
        py_return phones))))
       (\<lambda>e. if e = FileNotFoundError
             then py_bind (log_error (FileNotFound csv_file)) (\<lambda>_. py_return [])
             else py_bind (log_error (ReadFailed e)) (\<lambda>_. py_return []))"

section \<open>One call attempt\<close>

text \<open>
  The answers of the outside world during the check of one number, one field per
  external call of the source, each either the exception raised or the value returned:
  \<open>calls.create\<close> (the call's \<open>sid\<close>), \<open>recordings.list\<close> with \<open>limit=1\<close> (the
  \<open>sid\<close>s of the recordings listed), \<open>recordings(sid).fetch()\<close> (the \<open>uri\<close>),
  \<open>requests.get\<close> (the status code), writing the audio file, \<open>os.path.exists\<close>,
  opening the audio file, \<open>openai.Audio.transcribe\<close> (the entry \<open>text\<close> of the
  response, if it has one), \<open>os.remove\<close>, and \<open>datetime.now().isoformat()\<close>.
  \<open>time.sleep\<close> has no effect on values.
\<close>

record outcome =
  create_call :: "exn + pystr"
  list_recordings :: "exn + pystr list"
  fetch_recording :: "exn + pystr"
  http_get :: "exn + int"
  write_audio :: "exn + unit"
  path_exists :: bool
  open_audio :: "exn + unit"
  whisper :: "exn + pystr option"
  remove_audio :: "exn + unit"
  now :: pystr

text \<open>\<open>make_call_with_recording\<close>: the pair \<open>(call_sid, recording_sid)\<close>.\<close>

definition make_call_with_recording :: "outcome \<Rightarrow> pystr \<Rightarrow> (pystr option \<times> pystr option) py" where
  "make_call_with_recording oc phone_number =
     try_except
       (py_bind (extern (create_call oc)) (\<lambda>sid.
        py_bind (log_info (CallStarted phone_number sid)) (\<lambda>_.
        py_bind (extern (list_recordings oc)) (\<lambda>recordings.
        py_return (Some sid, if recordings \<noteq> [] then Some (hd recordings) else None)))))
       (\<lambda>e. if e = TwilioRestException
             then py_bind (log_error (TwilioFailed phone_number e)) (\<lambda>_. py_return (None, None))
             else py_bind (log_error (GeneralFailed phone_number e)) (\<lambda>_. py_return (None, None)))"

text \<open>
  \<open>download_recording\<close>: the name of the audio file, or \<open>None\<close>. The download address
  is built from the \<open>uri\<close> and only passed on to \<open>requests.get\<close>.
\<close>

definition download_recording :: "outcome \<Rightarrow> pystr option \<Rightarrow> pystr option py" where
  "download_recording oc recording_sid =
     (case recording_sid of
        None \<Rightarrow> py_return None
      | Some rsid \<Rightarrow>
          if rsid = [] then py_return None
          else
            try_except
              (py_bind (extern (fetch_recording oc)) (\<lambda>uri.
               py_bind (extern (http_get oc)) (\<lambda>status_code.
               if status_code = 200
               then py_bind (extern (write_audio oc)) (\<lambda>_.
                    py_bind (log_info (RecordingSaved (ascii ''recording_'' @ rsid @ ascii ''.mp3''))) (\<lambda>_.
                    py_return (Some (ascii ''recording_'' @ rsid @ ascii ''.mp3''))))
               else py_bind (log_error (DownloadRejected rsid)) (\<lambda>_. py_return None))))
              (\<lambda>e. py_bind (log_error (DownloadFailed e)) (\<lambda>_. py_return None)))"

text \<open>\<open>transcribe_audio\<close>: the lower-cased text, or the empty string.\<close>

definition transcribe_audio :: "outcome \<Rightarrow> pystr option \<Rightarrow> pystr py" where
  "transcribe_audio oc audio_file =
     (if \<not> truthy audio_file then py_return []
      else if \<not> path_exists oc then py_return []
      else
        try_except
          (py_bind (extern (open_audio oc)) (\<lambda>_.
           py_bind (extern (whisper oc)) (\<lambda>transcript.
           py_bind (log_info (Recognised (take 100 (lower (case transcript of None \<Rightarrow> [] | Some t \<Rightarrow> t))))) (\<lambda>_.
           py_bind (extern (remove_audio oc)) (\<lambda>_.
           py_return (lower (case transcript of None \<Rightarrow> [] | Some t \<Rightarrow> t)))))))
          (\<lambda>e. py_bind (log_error (RecognitionFailed e)) (\<lambda>_. py_return [])))"

text \<open>The row written for one number.\<close>

record validation_result =
  phone :: pystr
  status :: status
  transcribed_text :: pystr
  call_sid :: "pystr option"
  timestamp :: pystr

text \<open>The text put in an \<open>ERROR\<close> row, fifteen code points.\<close>

definition call_error_text :: pystr where
  "call_error_text =
     [0x41F, 0x43E, 0x43C, 0x438, 0x43B, 0x43A, 0x430, 0x20, 0x434, 0x437, 0x432, 0x456, 0x43D,
      0x43A, 0x430]"

text \<open>
  The transcript of a placed call: \<open>transcribe_audio(audio_file) if audio_file else ""\<close>
  after \<open>download_recording\<close>.
\<close>

definition fetch_transcript :: "outcome \<Rightarrow> pystr option \<Rightarrow> pystr py" where
  "fetch_transcript oc recording_sid =
     py_bind (download_recording oc recording_sid) (\<lambda>audio_file.
     if truthy audio_file then transcribe_audio oc audio_file else py_return [])"

definition validate_phone_number :: "outcome \<Rightarrow> pystr \<Rightarrow> validation_result py" where
  "validate_phone_number oc phone_number =
     py_bind (log_info (Checking phone_number)) (\<lambda>_.
     py_bind (make_call_with_recording oc phone_number) (\<lambda>(csid, rsid).
     if \<not> truthy csid
     then py_return \<lparr>phone = phone_number, status = ERROR, transcribed_text = call_error_text,
                     call_sid = None, timestamp = now oc\<rparr>
     else
       py_bind (fetch_transcript oc rsid) (\<lambda>text.
       py_bind (log_info (ResultFor phone_number (if is_valid_number text then VALID else INVALID))) (\<lambda>_.
       py_return \<lparr>phone = phone_number,
                  status = (if is_valid_number text then VALID else INVALID),
                  transcribed_text = text, call_sid = csid, timestamp = now oc\<rparr>))))"

section \<open>The batch\<close>

text \<open>
  The output file: its header and the rows written so far. The files are a map from
  paths; opening with mode \<open>'w'\<close> replaces what was there, and every write is taken to
  reach the file.
\<close>

record table =
  header :: "pystr list"
  rows :: "validation_result list"

type_synonym files = "pystr \<Rightarrow> table option"

definition fieldnames :: "pystr list" where
  "fieldnames = [ascii ''phone'', ascii ''status'', ascii ''transcribed_text'', ascii ''call_sid'',
                 ascii ''timestamp'']"

text \<open>
  The world of a batch: the reader of the input file, and for the \<open>i\<close>-th number (from 1)
  the answers during its check.
\<close>

record world =
  read_csv :: "pystr \<Rightarrow> exn + pystr list list"
  attempt :: "nat \<Rightarrow> outcome"

text \<open>
  The loop of \<open>process_phone_list\<close> over \<open>enumerate(phones, 1)\<close>: \<open>n\<close> is
  \<open>len(phones)\<close>, \<open>i\<close> the index, \<open>written\<close> the rows in the file (and in \<open>results\<close>,
  which receives the same rows in the same order). It yields the rows in the file when
  it stops, also when an exception stops it.
\<close>

fun process_rows ::
  "(nat \<Rightarrow> outcome) \<Rightarrow> nat \<Rightarrow> nat \<Rightarrow> pystr list \<Rightarrow> validation_result list
     \<Rightarrow> validation_result list \<times> unit py" where
  "process_rows att n i [] written = (written, py_return ())"
| "process_rows att n i (phone_number # rest) written =
     (case py_bind (log_info (Processing i n phone_number))
             (\<lambda>_. validate_phone_number (att i) phone_number) of
        (l, Inl e) \<Rightarrow> (written, (l, Inl e))
      | (l, Inr result) \<Rightarrow>
          (case process_rows att n (i + 1) rest (written @ [result]) of
             (written', (l', r)) \<Rightarrow>
               (written', (l @ (if i < n then [(LogInfo, Pause call_delay)] else []) @ l', r))))"

definition statistics :: "validation_result list \<Rightarrow> pystr \<Rightarrow> log" where
  "statistics results output_csv =
     [(LogInfo, Finished),
      (LogInfo, ValidCount (length (filter (\<lambda>r. status r = VALID) results))),
      (LogInfo, InvalidCount (length (filter (\<lambda>r. status r = INVALID) results))),
      (LogInfo, ErrorCount (length (filter (\<lambda>r. status r = ERROR) results))),
      (LogInfo, SavedTo output_csv)]"

text \<open>\<open>process_phone_list\<close>: the files afterwards, and the log and result of the run.\<close>

definition process_phone_list :: "world \<Rightarrow> files \<Rightarrow> pystr \<Rightarrow> pystr \<Rightarrow> files \<times> unit py" where
  "process_phone_list w fs input_csv output_csv =
     (case read_phone_numbers (read_csv w) input_csv of
        (l, Inl e) \<Rightarrow> (fs, (l, Inl e))
      | (l, Inr phones) \<Rightarrow>
          if phones = [] then (fs, (l @ [(LogError, NoNumbers)], Inr ()))
          else
            (case process_rows (attempt w) (length phones) 1 phones [] of
               (written, (l', Inl e)) \<Rightarrow>
                 (fs(output_csv := Some \<lparr>header = fieldnames, rows = written\<rparr>), (l @ l', Inl e))
             | (written, (l', Inr u)) \<Rightarrow>
                 (fs(output_csv := Some \<lparr>header = fieldnames, rows = written\<rparr>),
                  (l @ l' @ statistics written output_csv, Inr ()))))"

section \<open>Sample inputs\<close>

text \<open>
  A check in which every external call succeeds: the call is placed, one recording is
  listed and downloaded, and the transcript is a voice-mail greeting.
\<close>

definition answered :: outcome where
  "answered =
     \<lparr>create_call = Inr (ascii ''CA1''), list_recordings = Inr [ascii ''RE1''],
      fetch_recording = Inr (ascii ''/Recordings/RE1.json''), http_get = Inr 200,
      write_audio = Inr (), path_exists = True, open_audio = Inr (),
      whisper = Inr (Some (ascii ''Please leave your message'')), remove_audio = Inr (),
      now = ascii ''2024-01-01T00:00:00''\<rparr>"

definition number1 :: pystr where
  "number1 = ascii ''+10000000001''"

text \<open>
  An input file whose last record has no value in the \<open>phone\<close> column:
  \<open>name,phone\<close>, \<open>Alice,+380501234567\<close>, \<open>Bob\<close>.
\<close>

definition short_row_file :: "pystr list list" where
  "short_row_file =
     [[ascii ''name'', ascii ''phone''],
      [ascii ''Alice'', ascii ''+380501234567''],
      [ascii ''Bob'']]"



text \<open>
  A batch of two numbers in which the first call is answered and the provider refuses the
  second; a batch whose input file does not exist; and no files at all.
\<close>

definition two_numbers :: world where
  "two_numbers =
     \<lparr>read_csv = (\<lambda>path. Inr [[ascii ''phone''], [ascii ''+10000000001''], [ascii ''+10000000002'']]),
      attempt = (\<lambda>i. if i = 1 then answered else answered\<lparr>create_call := Inl TwilioRestException\<rparr>)\<rparr>"

definition missing_file :: world where
  "missing_file = \<lparr>read_csv = (\<lambda>path. Inl FileNotFoundError), attempt = (\<lambda>i. answered)\<rparr>"

definition no_files :: files where
  "no_files = (\<lambda>path. None)"

section \<open>Properties of the classifier\<close>




section \<open>The stages of one check\<close>

lemmas py_defs =
  py_return_def py_raise_def extern_def log_info_def log_error_def py_bind_def try_except_def

lemma make_call_cases:
  "make_call_with_recording oc p =
     (case create_call oc of
        Inl e \<Rightarrow> ([(LogError, if e = TwilioRestException then TwilioFailed p e else GeneralFailed p e)],
                  Inr (None, None))
      | Inr sid \<Rightarrow>
          (case list_recordings oc of
             Inl e \<Rightarrow> ([(LogInfo, CallStarted p sid),
                         (LogError, if e = TwilioRestException then TwilioFailed p e else GeneralFailed p e)],
                        Inr (None, None))
           | Inr recordings \<Rightarrow>
               ([(LogInfo, CallStarted p sid)],
                Inr (Some sid, if recordings \<noteq> [] then Some (hd recordings) else None))))"
  by (simp add: make_call_with_recording_def py_defs split: sum.splits)

lemma make_call_returns: "\<exists>l csid rsid. make_call_with_recording oc p = (l, Inr (csid, rsid))"
  by (simp add: make_call_cases split: sum.splits)

lemma download_returns: "\<exists>l f. download_recording oc rsid = (l, Inr f)"
  by (simp add: download_recording_def py_defs split: option.splits sum.splits)

lemma transcribe_returns: "\<exists>l t. transcribe_audio oc f = (l, Inr t)"
  by (simp add: transcribe_audio_def py_defs split: option.splits sum.splits)

lemma transcribe_failure:
  "open_audio oc = Inl e \<or> whisper oc = Inl e \<or> remove_audio oc = Inl e \<Longrightarrow>
   \<exists>l. transcribe_audio oc f = (l, Inr [])"
  by (auto simp add: transcribe_audio_def py_defs split: option.splits sum.splits)

lemma fetch_transcript_returns: "\<exists>l t. fetch_transcript oc rsid = (l, Inr t)"
proof -
  obtain l f where d: "download_recording oc rsid = (l, Inr f)"
    using download_returns by blast
  have "\<exists>l' t. (if truthy f then transcribe_audio oc f else py_return []) = (l', Inr t)"
    using transcribe_returns [of oc f] by (simp add: py_return_def)
  then obtain l' t where t: "(if truthy f then transcribe_audio oc f else py_return []) = (l', Inr t)"
    by blast
  show ?thesis
    using d t by (simp add: fetch_transcript_def py_bind_def)
qed

lemma fetch_transcript_no_recording:
  "\<not> truthy rsid \<Longrightarrow> fetch_transcript oc rsid = ([], Inr [])"
  by (cases rsid) (simp_all add: fetch_transcript_def download_recording_def py_defs)

lemma fetch_transcript_no_download:
  "download_recording oc rsid = (l, Inr None) \<Longrightarrow> fetch_transcript oc rsid = (l, Inr [])"
  by (simp add: fetch_transcript_def py_defs)

lemma fetch_transcript_failure:
  assumes "open_audio oc = Inl e \<or> whisper oc = Inl e \<or> remove_audio oc = Inl e"
  shows "\<exists>l. fetch_transcript oc rsid = (l, Inr [])"
proof -
  obtain l f where d: "download_recording oc rsid = (l, Inr f)"
    using download_returns by blast
  have "\<exists>l'. (if truthy f then transcribe_audio oc f else py_return []) = (l', Inr [])"
    using transcribe_failure [OF assms, of f] by (simp add: py_return_def)
  then obtain l' where t: "(if truthy f then transcribe_audio oc f else py_return []) = (l', Inr [])"
    by blast
  show ?thesis
    using d t by (simp add: fetch_transcript_def py_bind_def)
qed

text \<open>What \<open>validate_phone_number\<close> yields, from the pair the call returned.\<close>

lemma validate_error_branch:
  assumes "make_call_with_recording oc p = (lc, Inr (csid, rsid))" and "\<not> truthy csid"
  shows "validate_phone_number oc p =
           ((LogInfo, Checking p) # lc,
            Inr \<lparr>phone = p, status = ERROR, transcribed_text = call_error_text,
                  call_sid = None, timestamp = now oc\<rparr>)"
  using assms by (simp add: validate_phone_number_def py_defs)

lemma validate_placed_branch:
  assumes "make_call_with_recording oc p = (lc, Inr (csid, rsid))" and "truthy csid"
    and "fetch_transcript oc rsid = (lt, Inr t)"
  shows "validate_phone_number oc p =
           ((LogInfo, Checking p) # lc @ lt @
              [(LogInfo, ResultFor p (if is_valid_number t then VALID else INVALID))],
            Inr \<lparr>phone = p, status = (if is_valid_number t then VALID else INVALID),
                  transcribed_text = t, call_sid = csid, timestamp = now oc\<rparr>)"
  using assms by (simp add: validate_phone_number_def py_defs)

lemma validate_returns: "\<exists>l r. validate_phone_number oc p = (l, Inr r) \<and> phone r = p"
proof -
  obtain lc csid rsid where c: "make_call_with_recording oc p = (lc, Inr (csid, rsid))"
    using make_call_returns by blast
  obtain lt t where t: "fetch_transcript oc rsid = (lt, Inr t)"
    using fetch_transcript_returns by blast
  show ?thesis
  proof (cases "truthy csid")
    case True
    show ?thesis using validate_placed_branch [OF c True t] by simp
  next
    case False
    show ?thesis using validate_error_branch [OF c False] by simp
  qed
qed

section \<open>The status of a result\<close>

text \<open>
  C1. \<open>validate_phone_number\<close> returns a result for every number and every behaviour
  of the outside world, as does \<open>make_call_with_recording\<close>. The status is \<open>ERROR\<close>
  exactly when the call returned no call identifier, which the source tests with
  \<open>not call_sid\<close>: \<open>None\<close>, or a \<open>sid\<close> that is the empty string. When there is a
  call identifier, the status is \<open>VALID\<close> or \<open>INVALID\<close> as \<open>is_valid_number\<close> says
  of the transcript, and the transcript in the result is the one fetched for the recording.
\<close>

theorem status_error_iff_no_call_sid:
  "\<exists>l r lc csid rsid.
     validate_phone_number oc p = (l, Inr r) \<and>
     make_call_with_recording oc p = (lc, Inr (csid, rsid)) \<and>
     (status r = ERROR \<longleftrightarrow> \<not> truthy csid) \<and>
     (truthy csid \<longrightarrow>
        status r = (if is_valid_number (transcribed_text r) then VALID else INVALID) \<and>
        (\<exists>lt. fetch_transcript oc rsid = (lt, Inr (transcribed_text r))))"
proof -
  obtain lc csid rsid where c: "make_call_with_recording oc p = (lc, Inr (csid, rsid))"
    using make_call_returns by blast
  obtain lt t where t: "fetch_transcript oc rsid = (lt, Inr t)"
    using fetch_transcript_returns by blast
  show ?thesis
  proof (cases "truthy csid")
    case True
    show ?thesis using validate_placed_branch [OF c True t] c t True by simp
  next
    case False
    show ?thesis using validate_error_branch [OF c False] c False by simp
  qed
qed

theorem status_error_iff_no_call_sid_witness:
  "\<exists>l r lc csid rsid.
     validate_phone_number answered number1 = (l, Inr r) \<and>
     make_call_with_recording answered number1 = (lc, Inr (csid, rsid)) \<and>
     truthy csid \<and> status r \<noteq> ERROR \<and>
     status r = (if is_valid_number (transcribed_text r) then VALID else INVALID)"
proof -
  from status_error_iff_no_call_sid [of answered number1]
  obtain l r lc csid rsid where
    v: "validate_phone_number answered number1 = (l, Inr r)" and
    c: "make_call_with_recording answered number1 = (lc, Inr (csid, rsid))" and
    e: "status r = ERROR \<longleftrightarrow> \<not> truthy csid" and
    s: "truthy csid \<longrightarrow>
          status r = (if is_valid_number (transcribed_text r) then VALID else INVALID) \<and>
          (\<exists>lt. fetch_transcript answered rsid = (lt, Inr (transcribed_text r)))"
    by blast
  have "make_call_with_recording answered number1 =
          ([(LogInfo, CallStarted number1 (ascii ''CA1''))],
           Inr (Some (ascii ''CA1''), Some (ascii ''RE1'')))"
    by (simp add: make_call_cases answered_def)
  with c have "csid = Some (ascii ''CA1'')"
    by simp
  then have t: "truthy csid"
    by (simp add: ascii_def)
  show ?thesis
    using v c e s t by blast
qed

text \<open>
  C7. \<open>make_call_with_recording\<close> returns for every number and every behaviour of the
  provider. When placing the call raises, it logs one error (the telephony message for
  \<open>TwilioRestException\<close>, the general one otherwise) and returns \<open>(None, None)\<close>; the
  same when the call was placed and listing the recordings raises.
\<close>

theorem make_call_never_raises:
  "(\<exists>l csid rsid. make_call_with_recording oc p = (l, Inr (csid, rsid))) \<and>
   (\<forall>e. create_call oc = Inl e \<longrightarrow>
      make_call_with_recording oc p =
        ([(LogError, if e = TwilioRestException then TwilioFailed p e else GeneralFailed p e)],
         Inr (None, None))) \<and>
   (\<forall>sid e. create_call oc = Inr sid \<and> list_recordings oc = Inl e \<longrightarrow>
      make_call_with_recording oc p =
        ([(LogInfo, CallStarted p sid),
          (LogError, if e = TwilioRestException then TwilioFailed p e else GeneralFailed p e)],
         Inr (None, None)))"
  by (simp add: make_call_cases split: sum.splits)

theorem make_call_never_raises_witness:
  "create_call (answered\<lparr>create_call := Inl TwilioRestException\<rparr>) = Inl TwilioRestException \<and>
   make_call_with_recording (answered\<lparr>create_call := Inl TwilioRestException\<rparr>) number1 =
     ([(LogError, TwilioFailed number1 TwilioRestException)], Inr (None, None))"
  using make_call_never_raises [of "answered\<lparr>create_call := Inl TwilioRestException\<rparr>" number1]
  by simp

text \<open>
  C6. When the call returned a call identifier, a result with an empty transcript has
  status \<open>INVALID\<close>. The transcript is empty, and the status \<open>INVALID\<close>, when no
  recording was found, when the download gave no file, and when opening the audio, the
  transcription or the removal of the file raised.
\<close>

theorem empty_transcript_is_invalid:
  assumes "make_call_with_recording oc p = (lc, Inr (csid, rsid))" and "truthy csid"
  shows "\<exists>l r. validate_phone_number oc p = (l, Inr r) \<and>
           (transcribed_text r = [] \<longrightarrow> status r = INVALID) \<and>
           (\<not> truthy rsid \<longrightarrow> transcribed_text r = [] \<and> status r = INVALID) \<and>
           (\<forall>ld. download_recording oc rsid = (ld, Inr None) \<longrightarrow>
              transcribed_text r = [] \<and> status r = INVALID) \<and>
           (\<forall>e. open_audio oc = Inl e \<or> whisper oc = Inl e \<or> remove_audio oc = Inl e \<longrightarrow>
              transcribed_text r = [] \<and> status r = INVALID)"
proof -
  obtain lt t where t: "fetch_transcript oc rsid = (lt, Inr t)"
    using fetch_transcript_returns by blast
  have a: "\<not> truthy rsid \<longrightarrow> t = []"
    using fetch_transcript_no_recording [of rsid oc] t by simp
  have b: "\<forall>ld. download_recording oc rsid = (ld, Inr None) \<longrightarrow> t = []"
    using fetch_transcript_no_download [of oc rsid] t by simp
  have c: "\<forall>e. open_audio oc = Inl e \<or> whisper oc = Inl e \<or> remove_audio oc = Inl e \<longrightarrow> t = []"
    using fetch_transcript_failure [of oc _ rsid] t by fastforce
  have d: "t = [] \<longrightarrow> \<not> is_valid_number t"
    by (simp add: is_valid_number_def)
  show ?thesis
    using validate_placed_branch [OF assms t] a b c d by simp
qed

theorem empty_transcript_is_invalid_witness:
  "make_call_with_recording (answered\<lparr>whisper := Inl (OtherException 0)\<rparr>) number1 =
     ([(LogInfo, CallStarted number1 (ascii ''CA1''))], Inr (Some (ascii ''CA1''), Some (ascii ''RE1''))) \<and>
   truthy (Some (ascii ''CA1'')) \<and>
   (\<exists>l r. validate_phone_number (answered\<lparr>whisper := Inl (OtherException 0)\<rparr>) number1 = (l, Inr r) \<and>
      transcribed_text r = [] \<and> status r = INVALID)"
proof -
  have c: "make_call_with_recording (answered\<lparr>whisper := Inl (OtherException 0)\<rparr>) number1 =
     ([(LogInfo, CallStarted number1 (ascii ''CA1''))], Inr (Some (ascii ''CA1''), Some (ascii ''RE1'')))"
    by (simp add: make_call_cases answered_def)
  have t: "truthy (Some (ascii ''CA1''))"
    by (simp add: ascii_def)
  show ?thesis
    using empty_transcript_is_invalid [OF c t] c t by auto
qed

text \<open>
  No transcript equals the text of an \<open>ERROR\<close> row: a transcript is empty or
  lower-cased, and the text starts with a capital letter.
\<close>

lemma lower_char_not_capital: "lower_char c \<noteq> 0x41F"
  by (auto simp add: lower_char_def)

lemma lower_not_call_error_text: "lower u \<noteq> call_error_text"
  by (cases u) (simp_all add: lower_def call_error_text_def lower_char_not_capital)

lemma transcribe_lowered:
  "transcribe_audio oc f = (l, Inr t) \<Longrightarrow> t = [] \<or> (\<exists>u. t = lower u)"
  by (auto simp add: transcribe_audio_def py_defs split: if_splits sum.splits)

lemma fetch_transcript_lowered:
  assumes "fetch_transcript oc rsid = (l, Inr t)"
  shows "t = [] \<or> (\<exists>u. t = lower u)"
proof -
  obtain ld f where d: "download_recording oc rsid = (ld, Inr f)"
    using download_returns by blast
  obtain lt t' where t: "transcribe_audio oc f = (lt, Inr t')"
    using transcribe_returns by blast
  show ?thesis
    using assms d t transcribe_lowered [OF t]
    by (auto simp add: fetch_transcript_def py_bind_def py_return_def split: if_splits)
qed

text \<open>
  C10. When the call returned no call identifier, the result has status \<open>ERROR\<close>,
  \<open>call_sid\<close> \<open>None\<close> and as \<open>transcribed_text\<close> the fixed text of the source, which is
  not empty and which no fetched transcript equals.
\<close>

theorem error_row_has_call_error_text:
  assumes "make_call_with_recording oc p = (lc, Inr (csid, rsid))" and "\<not> truthy csid"
  shows "\<exists>l r. validate_phone_number oc p = (l, Inr r) \<and>
           status r = ERROR \<and> call_sid r = None \<and> transcribed_text r = call_error_text \<and>
           call_error_text \<noteq> [] \<and>
           (\<forall>oc' rsid' lt t. fetch_transcript oc' rsid' = (lt, Inr t) \<longrightarrow> t \<noteq> call_error_text)"
proof -
  have a: "call_error_text \<noteq> []"
    by (simp add: call_error_text_def)
  have b: "\<forall>oc' rsid' lt t. fetch_transcript oc' rsid' = (lt, Inr t) \<longrightarrow> t \<noteq> call_error_text"
  proof (intro allI impI)
    fix oc' rsid' lt t
    assume "fetch_transcript oc' rsid' = (lt, Inr t)"
    then have "t = [] \<or> (\<exists>u. t = lower u)"
      by (rule fetch_transcript_lowered)
    then show "t \<noteq> call_error_text"
      using a lower_not_call_error_text by metis
  qed
  show ?thesis
    using validate_error_branch [OF assms] a b by simp
qed

theorem error_row_has_call_error_text_witness:
  "make_call_with_recording (answered\<lparr>create_call := Inl (OtherException 7)\<rparr>) number1 =
     ([(LogError, GeneralFailed number1 (OtherException 7))], Inr (None, None)) \<and>
   \<not> truthy None \<and>
   (\<exists>l r. validate_phone_number (answered\<lparr>create_call := Inl (OtherException 7)\<rparr>) number1 = (l, Inr r) \<and>
      status r = ERROR \<and> call_sid r = None \<and> transcribed_text r = call_error_text)"
proof -
  have c: "make_call_with_recording (answered\<lparr>create_call := Inl (OtherException 7)\<rparr>) number1 =
     ([(LogError, GeneralFailed number1 (OtherException 7))], Inr (None, None))"
    by (simp add: make_call_cases)
  have t: "\<not> truthy None"
    by simp
  show ?thesis
    using error_row_has_call_error_text [OF c t] c t by auto
qed

section \<open>Properties of the reader\<close>

text \<open>
  The loop of the reader logs nothing, and either returns the numbers or raises
  \<open>AttributeError\<close>. When every row that has the key \<open>phone\<close> has a string under it,
  the loop returns the stripped, non-empty values in the order of the rows.
\<close>

lemma collect_phones_cases:
  "collect_phones rs acc = ([], Inl AttributeError) \<or>
   (\<exists>phones. collect_phones rs acc = ([], Inr phones))"
  by (induction rs arbitrary: acc)
     (auto simp add: py_return_def py_raise_def split: option.splits)

lemma collect_phones_complete:
  "\<forall>row \<in> set rs. row (ascii ''phone'') \<noteq> Some None \<Longrightarrow>
   collect_phones rs acc =
     ([], Inr (acc @ concat (map (\<lambda>row. case row (ascii ''phone'') of
                                          Some (Some v) \<Rightarrow> if strip v \<noteq> [] then [strip v] else []
                                        | _ \<Rightarrow> []) rs)))"
  by (induction rs arbitrary: acc)
     (auto simp add: py_return_def split: option.splits)

lemma read_phone_numbers_cases:
  "read_phone_numbers rd f =
     (case rd f of
        Inl e \<Rightarrow> ([(LogError, if e = FileNotFoundError then FileNotFound f else ReadFailed e)], Inr [])
      | Inr records \<Rightarrow>
          (case collect_phones (DictReader records) [] of
             (l, Inl e) \<Rightarrow> ([(LogError, ReadFailed e)], Inr [])
           | (l, Inr phones) \<Rightarrow> ([(LogInfo, Loaded (length phones) f)], Inr phones)))"
proof (cases "rd f")
  case (Inl e)
  then show ?thesis
    by (simp add: read_phone_numbers_def py_defs)
next
  case (Inr records)
  show ?thesis
    using Inr collect_phones_cases [of "DictReader records" "[]"]
    by (auto simp add: read_phone_numbers_def py_defs)
qed

text \<open>
  C8. \<open>read_phone_numbers\<close> returns for every path and every behaviour of the file:
  when the file is not found it logs that error and returns the empty list; when reading
  raises anything else, or the loop over the rows raises, it logs the read error and
  returns the empty list.
\<close>

theorem read_phone_numbers_never_raises:
  "(\<exists>l phones. read_phone_numbers rd f = (l, Inr phones)) \<and>
   (rd f = Inl FileNotFoundError \<longrightarrow>
      read_phone_numbers rd f = ([(LogError, FileNotFound f)], Inr [])) \<and>
   (\<forall>e. rd f = Inl e \<and> e \<noteq> FileNotFoundError \<longrightarrow>
      read_phone_numbers rd f = ([(LogError, ReadFailed e)], Inr [])) \<and>
   (\<forall>records l e. rd f = Inr records \<and> collect_phones (DictReader records) [] = (l, Inl e) \<longrightarrow>
      read_phone_numbers rd f = ([(LogError, ReadFailed e)], Inr []))"
  by (auto simp add: read_phone_numbers_cases split: sum.splits prod.splits)

theorem read_phone_numbers_never_raises_witness:
  "read_csv missing_file (ascii ''phone_numbers.csv'') = Inl FileNotFoundError \<and>
   read_phone_numbers (read_csv missing_file) (ascii ''phone_numbers.csv'') =
     ([(LogError, FileNotFound (ascii ''phone_numbers.csv''))], Inr [])"
  using read_phone_numbers_never_raises [of "read_csv missing_file" "ascii ''phone_numbers.csv''"]
  by (simp add: missing_file_def)

text \<open>
  C5, at the file \<open>short_row_file\<close>. The specification has a row without a phone value
  skipped and every other row's phone kept, so that the result would be the one number
  of Alice. The reader instead raises \<open>AttributeError\<close> on the short row, inside its own
  \<open>try\<close>, and returns the empty list with a logged read error.
\<close>

theorem read_phone_numbers_short_row:
  "read_phone_numbers (\<lambda>path. Inr short_row_file) (ascii ''phone_numbers.csv'') =
     ([(LogError, ReadFailed AttributeError)], Inr [])"
  by (simp add: read_phone_numbers_cases short_row_file_def dict_row_def ascii_def py_defs
        strip_def is_space_def)

section \<open>Properties of the constructor\<close>





text \<open>
  When the client's constructor raises, its exception leaves \<open>__init__\<close> before the
  credentials are checked.
\<close>

lemma init_client_raises:
  "Client (getenv TWILIO_ACCOUNT_SID) (getenv TWILIO_AUTH_TOKEN) = Inl e \<Longrightarrow>
   init Client getenv = ([], Inl e)"
  by (simp add: init_def py_defs)



section \<open>Properties of the batch\<close>

text \<open>
  C9. When the reader returns the empty list, \<open>process_phone_list\<close> logs that there are
  no numbers and returns with the files as they were: nothing is created at the output
  path, no header and no row is written. So it is when the input file is not found.
\<close>

theorem no_numbers_no_output:
  "(\<forall>l. read_phone_numbers (read_csv w) input_csv = (l, Inr []) \<longrightarrow>
      process_phone_list w fs input_csv output_csv = (fs, (l @ [(LogError, NoNumbers)], Inr ()))) \<and>
   (read_csv w input_csv = Inl FileNotFoundError \<longrightarrow>
      process_phone_list w fs input_csv output_csv =
        (fs, ([(LogError, FileNotFound input_csv), (LogError, NoNumbers)], Inr ())))"
  by (simp add: process_phone_list_def read_phone_numbers_cases)

theorem no_numbers_no_output_witness:
  "read_csv missing_file (ascii ''phone_numbers.csv'') = Inl FileNotFoundError \<and>
   process_phone_list missing_file no_files (ascii ''phone_numbers.csv'') (ascii ''results.csv'') =
     (no_files, ([(LogError, FileNotFound (ascii ''phone_numbers.csv'')), (LogError, NoNumbers)], Inr ())) \<and>
   no_files (ascii ''results.csv'') = None"
  using no_numbers_no_output [of missing_file "ascii ''phone_numbers.csv''" no_files "ascii ''results.csv''"]
  by (simp add: missing_file_def no_files_def)

text \<open>
  The loop writes one row per number, after the rows already written, and does not
  raise: the \<open>k\<close>-th new row is the result of checking the \<open>k\<close>-th number.
\<close>

lemma process_rows_all:
  "\<exists>rs l. process_rows att n i ps written = (written @ rs, (l, Inr ())) \<and>
          length rs = length ps \<and>
          (\<forall>k<length ps. snd (validate_phone_number (att (i + k)) (ps ! k)) = Inr (rs ! k))"
proof (induction ps arbitrary: i written)
  case Nil
  show ?case
    by (simp add: py_return_def)
next
  case (Cons p ps)
  obtain lv r where v: "validate_phone_number (att i) p = (lv, Inr r)"
    using validate_returns by blast
  obtain rs l where
    step: "process_rows att n (i + 1) ps (written @ [r]) = ((written @ [r]) @ rs, (l, Inr ()))" and
    len: "length rs = length ps" and
    each: "\<forall>k<length ps. snd (validate_phone_number (att (i + 1 + k)) (ps ! k)) = Inr (rs ! k)"
    using Cons.IH [of "i + 1" "written @ [r]"] by blast
  have run: "process_rows att n i (p # ps) written =
               (written @ r # rs,
                ((LogInfo, Processing i n p) # lv @
                   (if i < n then [(LogInfo, Pause call_delay)] else []) @ l, Inr ()))"
    using v step by (simp add: py_bind_def log_info_def)
  have "\<forall>k<length (p # ps). snd (validate_phone_number (att (i + k)) ((p # ps) ! k)) = Inr ((r # rs) ! k)"
  proof (intro allI impI)
    fix k
    assume k: "k < length (p # ps)"
    show "snd (validate_phone_number (att (i + k)) ((p # ps) ! k)) = Inr ((r # rs) ! k)"
    proof (cases k)
      case 0
      then show ?thesis using v by simp
    next
      case (Suc j)
      then have "j < length ps" using k by simp
      then show ?thesis using each Suc by simp
    qed
  qed
  then show ?case
    using run len by simp
qed

lemma validate_phone: "snd (validate_phone_number oc p) = Inr r \<Longrightarrow> phone r = p"
  using validate_returns [of oc p] by auto

text \<open>
  C2. When the reader returns a non-empty list of numbers, \<open>process_phone_list\<close>
  returns, and the file at the output path holds the header and one row per number in
  the order of the list: the \<open>k\<close>-th row is the result of checking the \<open>k\<close>-th
  number and carries that number.
\<close>

theorem one_row_per_number:
  assumes "read_phone_numbers (read_csv w) input_csv = (l, Inr phones)" and "phones \<noteq> []"
  shows "\<exists>l' t. process_phone_list w fs input_csv output_csv = (fs(output_csv := Some t), (l', Inr ())) \<and>
           header t = fieldnames \<and>
           length (rows t) = length phones \<and>
           map phone (rows t) = phones \<and>
           (\<forall>k<length phones.
              snd (validate_phone_number (attempt w (Suc k)) (phones ! k)) = Inr (rows t ! k))"
proof -
  obtain rs l' where
    run: "process_rows (attempt w) (length phones) 1 phones [] = ([] @ rs, (l', Inr ()))" and
    len: "length rs = length phones" and
    each: "\<forall>k<length phones. snd (validate_phone_number (attempt w (1 + k)) (phones ! k)) = Inr (rs ! k)"
    using process_rows_all [of "attempt w" "length phones" 1 phones "[]"] by blast
  have "\<forall>k<length phones. phone (rs ! k) = phones ! k"
    using each validate_phone by blast
  then have same: "map phone rs = phones"
    using len by (simp add: list_eq_iff_nth_eq)
  have ran: "process_phone_list w fs input_csv output_csv =
          (fs(output_csv := Some \<lparr>header = fieldnames, rows = rs\<rparr>),
           (l @ l' @ statistics rs output_csv, Inr ()))"
    using assms run by (simp add: process_phone_list_def)
  show ?thesis
  proof (intro exI conjI)
    show "process_phone_list w fs input_csv output_csv =
            (fs(output_csv := Some \<lparr>header = fieldnames, rows = rs\<rparr>),
             (l @ l' @ statistics rs output_csv, Inr ()))"
      by (fact ran)
    show "header \<lparr>header = fieldnames, rows = rs\<rparr> = fieldnames"
      by simp
    show "length (rows \<lparr>header = fieldnames, rows = rs\<rparr>) = length phones"
      using len by simp
    show "map phone (rows \<lparr>header = fieldnames, rows = rs\<rparr>) = phones"
      using same by simp
    show "\<forall>k<length phones.
            snd (validate_phone_number (attempt w (Suc k)) (phones ! k)) =
            Inr (rows \<lparr>header = fieldnames, rows = rs\<rparr> ! k)"
      using each by simp
  qed
qed

theorem one_row_per_number_witness:
  "read_phone_numbers (read_csv two_numbers) (ascii ''phone_numbers.csv'') =
     ([(LogInfo, Loaded 2 (ascii ''phone_numbers.csv''))],
      Inr [ascii ''+10000000001'', ascii ''+10000000002'']) \<and>
   [ascii ''+10000000001'', ascii ''+10000000002''] \<noteq> [] \<and>
   (\<exists>l' t. process_phone_list two_numbers no_files (ascii ''phone_numbers.csv'') (ascii ''results.csv'') =
             (no_files(ascii ''results.csv'' := Some t), (l', Inr ())) \<and>
           length (rows t) = 2 \<and>
           map phone (rows t) = [ascii ''+10000000001'', ascii ''+10000000002''])"
proof -
  have r: "read_phone_numbers (read_csv two_numbers) (ascii ''phone_numbers.csv'') =
     ([(LogInfo, Loaded 2 (ascii ''phone_numbers.csv''))],
      Inr [ascii ''+10000000001'', ascii ''+10000000002''])"
    by (simp add: read_phone_numbers_cases two_numbers_def dict_row_def py_defs strip_def
          is_space_def ascii_def)
  have n: "[ascii ''+10000000001'', ascii ''+10000000002''] \<noteq> []"
    by simp
  from one_row_per_number [OF r n, of no_files "ascii ''results.csv''"]
  obtain l' t where
    p: "process_phone_list two_numbers no_files (ascii ''phone_numbers.csv'') (ascii ''results.csv'') =
          (no_files(ascii ''results.csv'' := Some t), (l', Inr ()))" and
    len: "length (rows t) = length [ascii ''+10000000001'', ascii ''+10000000002'']" and
    same: "map phone (rows t) = [ascii ''+10000000001'', ascii ''+10000000002'']"
    by (elim exE conjE)
  have two: "length (rows t) = 2"
    using len by simp
  show ?thesis
  proof (intro conjI exI)
    show "read_phone_numbers (read_csv two_numbers) (ascii ''phone_numbers.csv'') =
            ([(LogInfo, Loaded 2 (ascii ''phone_numbers.csv''))],
             Inr [ascii ''+10000000001'', ascii ''+10000000002''])"
      by (fact r)
    show "[ascii ''+10000000001'', ascii ''+10000000002''] \<noteq> []"
      by (fact n)
    show "process_phone_list two_numbers no_files (ascii ''phone_numbers.csv'') (ascii ''results.csv'') =
            (no_files(ascii ''results.csv'' := Some t), (l', Inr ()))"
      by (fact p)
    show "length (rows t) = 2"
      by (fact two)
    show "map phone (rows t) = [ascii ''+10000000001'', ascii ''+10000000002'']"
      by (fact same)
  qed
qed

end
